theory Spec2Isabelle
  imports Main "HOL-Library.Char_ord" "HOL-Library.List_Lexorder" "HOL-Library.Sublist"
begin

section \<open>Python strings\<close>

text \<open>
  A Python \<open>str\<close> is modelled by a HOL \<open>string\<close>, one \<open>char\<close> per code point; this
  covers the code points below 256. Comparison of strings is lexicographic on the code
  points, which is the order of \<open>HOL-Library.List_Lexorder\<close> over \<open>HOL-Library.Char_ord\<close>.
\<close>

text \<open>\<open>str.isspace\<close> on one code point below 256: TAB, LF, VT, FF, CR, FS, GS, RS, US,
  SPACE, NEL and NBSP.\<close>

definition is_space :: "char \<Rightarrow> bool" where
  "is_space c = (c \<in> set [CHR 0x09, CHR 0x0A, CHR 0x0B, CHR 0x0C, CHR 0x0D,
                            CHR 0x1C, CHR 0x1D, CHR 0x1E, CHR 0x1F, CHR 0x20,
                            CHR 0x85, CHR 0xA0])"

text \<open>\<open>str.isdigit\<close> on one code point below 256: the ten decimal digits and the
  superscript digits two, three and one.\<close>

definition is_digit :: "char \<Rightarrow> bool" where
  "is_digit c = (c \<in> set (''0123456789'' @ [CHR 0xB2, CHR 0xB3, CHR 0xB9]))"

text \<open>\<open>s.strip()\<close>: leading and trailing whitespace removed.\<close>

definition strip :: "string \<Rightarrow> string" where
  "strip s = rev (dropWhile is_space (rev (dropWhile is_space s)))"

text \<open>\<open>s.isdigit()\<close>: at least one character, and every character a digit.\<close>

definition isdigit :: "string \<Rightarrow> bool" where
  "isdigit s = (s \<noteq> [] \<and> list_all is_digit s)"

text \<open>\<open>s.zfill(width)\<close>: zeros are inserted on the left, after a leading sign, up to
  \<open>width\<close> characters; a string that is already that long is returned as it is.\<close>

definition zfill :: "nat \<Rightarrow> string \<Rightarrow> string" where
  "zfill width s =
     (if width \<le> length s then s
      else case s of
             [] \<Rightarrow> replicate width CHR ''0''
           | c # cs \<Rightarrow>
               if c = CHR ''+'' \<or> c = CHR ''-''
               then c # replicate (width - length s) CHR ''0'' @ cs
               else replicate (width - length s) CHR ''0'' @ s)"

text \<open>\<open>s.lower()\<close> on code points below 256: the letters A to Z and the accented capitals
  of Latin-1 (all of 0xC0 to 0xDE but the multiplication sign) move up by 32.\<close>

definition lower_char :: "char \<Rightarrow> char" where
  "lower_char c =
     (let n = (of_char c :: nat)
      in if (65 \<le> n \<and> n \<le> 90) \<or> (192 \<le> n \<and> n \<le> 222 \<and> n \<noteq> 215)
         then char_of (n + 32) else c)"

definition lower :: "string \<Rightarrow> string" where
  "lower s = map lower_char s"

text \<open>\<open>sep.join(xs)\<close>.\<close>

fun join :: "string \<Rightarrow> string list \<Rightarrow> string" where
  "join sep [] = []"
| "join sep [x] = x"
| "join sep (x # y # ys) = x @ sep @ join sep (y # ys)"

text \<open>\<open>sorted(set(xs))\<close>: the distinct elements in increasing order.\<close>

definition sorted_set :: "string list \<Rightarrow> string list" where
  "sorted_set xs = sort (remdups xs)"

section \<open>Parsed feed documents and the path queries of the module\<close>

text \<open>
  The tree that \<open>lxml\<close> builds, as the XPath data model sees it: an element has a local
  name, attributes and children in document order; a child is an element or a text
  node. Comments and processing instructions are left out: no query of the module
  selects them, and they do not contribute to a string value. All queries of the
  module test \<open>local-name()\<close>, so the namespace of an element is not kept.
\<close>

datatype xnode =
    Elem string "(string \<times> string) list" "xnode list"
  | Text string

fun kids :: "xnode \<Rightarrow> xnode list" where
  "kids (Elem n as cs) = cs"
| "kids (Text s) = []"

fun attribs :: "xnode \<Rightarrow> (string \<times> string) list" where
  "attribs (Elem n as cs) = as"
| "attribs (Text s) = []"

fun is_named :: "string \<Rightarrow> xnode \<Rightarrow> bool" where
  "is_named n (Elem m as cs) = (m = n)"
| "is_named n (Text s) = False"

text \<open>The string value of a node: the text nodes beneath it, concatenated.\<close>

fun string_value :: "xnode \<Rightarrow> string" where
  "string_value (Text s) = s"
| "string_value (Elem n as cs) = concat (map string_value cs)"

text \<open>The nodes strictly beneath a node, in document order.\<close>

fun descendants :: "xnode \<Rightarrow> xnode list" where
  "descendants (Text s) = []"
| "descendants (Elem n as cs) = concat (map (\<lambda>c. c # descendants c) cs)"

text \<open>The text nodes that are children of a node (\<open>text()\<close>).\<close>

fun text_children :: "xnode \<Rightarrow> string list" where
  "text_children x = concat (map (\<lambda>c. case c of Text s \<Rightarrow> [s] | Elem n as cs \<Rightarrow> []) (kids x))"

text \<open>\<open>el.text or ""\<close>: the text before the first child element.\<close>

fun el_text :: "xnode \<Rightarrow> string" where
  "el_text (Elem n as (Text s # cs)) = s"
| "el_text x = []"

text \<open>
  The five shapes of path expression that the module evaluates:
  \<^item> \<open>StringOfChild n\<close> is \<^verbatim>\<open>string(./*[local-name()='n'])\<close>,
  \<^item> \<open>StringOfChildAttr n a\<close> is \<^verbatim>\<open>string(./*[local-name()='n']/@a)\<close>,
  \<^item> \<open>StringOfDesc n\<close> is \<^verbatim>\<open>string(.//*[local-name()='n'])\<close>,
  \<^item> \<open>TextsOfDesc n\<close> is \<^verbatim>\<open>.//*[local-name()='n']/text()\<close>,
  \<^item> \<open>AllElements n\<close> is \<^verbatim>\<open>//*[local-name()='n']\<close>, evaluated at the root element.
\<close>

datatype xpath_expr =
    StringOfChild string
  | StringOfChildAttr string string
  | StringOfDesc string
  | TextsOfDesc string
  | AllElements string

text \<open>
  What \<open>node.xpath(expr)\<close> returns: a string for an expression with a string result, a
  list for a node set. The items of the list are elements, or strings for text nodes.
\<close>

datatype xitem = XStr string | XNode xnode

datatype xresult = RString string | RList "xitem list"

text \<open>\<open>string(node-set)\<close>: the string value of the first node in document order, the
  empty string for an empty node set.\<close>

fun first_or_empty :: "string list \<Rightarrow> string" where
  "first_or_empty [] = []"
| "first_or_empty (s # ss) = s"

fun xpath :: "xnode \<Rightarrow> xpath_expr \<Rightarrow> xresult" where
  "xpath x (StringOfChild n) =
     RString (first_or_empty (map string_value (filter (is_named n) (kids x))))"
| "xpath x (StringOfChildAttr n a) =
     RString (first_or_empty
       (List.map_filter (\<lambda>c. map_of (attribs c) a) (filter (is_named n) (kids x))))"
| "xpath x (StringOfDesc n) =
     RString (first_or_empty (map string_value (filter (is_named n) (descendants x))))"
| "xpath x (TextsOfDesc n) =
     RList (map XStr (concat (map text_children (filter (is_named n) (descendants x)))))"
| "xpath x (AllElements n) =
     RList (map XNode (filter (is_named n) (x # descendants x)))"

section \<open>The module\<close>

datatype py_error =
    KeyError
  | BadZipFile
  | XMLSyntaxError
  | AttributeError
  | RuntimeError
  | OSError
  | ValueError_isoformat
  | ValueError_no_cpv
  | OtherError string

definition DEFAULT_CPV :: "string list" where
  "DEFAULT_CPV = [''09330000'', ''45261215'', ''45315300'']"

subsection \<open>Tolerant parsing\<close>

type_synonym bytes = string

text \<open>
  \<open>etree.fromstring(atom_bytes, parser=_PARSER)\<close> is the library's: it is a parameter of
  the model. It raises, or returns the root element, or returns \<open>None\<close> when the
  recovering parser has built a document without a root element.
\<close>

type_synonym xml_parser = "bytes \<Rightarrow> py_error + xnode option"

fun elements :: "xresult \<Rightarrow> xnode list" where
  "elements (RList items) = concat (map (\<lambda>i. case i of XNode e \<Rightarrow> [e] | XStr s \<Rightarrow> []) items)"
| "elements (RString s) = []"

text \<open>\<open>root.xpath(...)\<close> on \<open>None\<close> raises \<open>AttributeError\<close>.\<close>

definition iter_entries :: "xml_parser \<Rightarrow> bytes \<Rightarrow> py_error + xnode list" where
  "iter_entries fromstring atom_bytes =
     (case fromstring atom_bytes of
        Inl exc \<Rightarrow> Inl exc
      | Inr None \<Rightarrow> Inl AttributeError
      | Inr (Some root) \<Rightarrow> Inr (elements (xpath root (AllElements ''entry''))))"

text \<open>
  \<open>text1\<close>: \<open>res[0]\<close> of a non-empty string result is its first character, as a string of
  length one; \<open>res[0]\<close> of a non-empty list is its first item.
\<close>

definition text1 :: "xnode \<Rightarrow> xpath_expr \<Rightarrow> string" where
  "text1 node xpath_expr =
     (case xpath node xpath_expr of
        RString res \<Rightarrow> (case res of [] \<Rightarrow> [] | c # cs \<Rightarrow> [c])
      | RList res \<Rightarrow>
          (case res of
             [] \<Rightarrow> []
           | val # vs \<Rightarrow> (case val of XStr s \<Rightarrow> s | XNode el \<Rightarrow> el_text el)))"

text \<open>\<open>texts\<close>: iterating over a string result visits its characters.\<close>

definition texts :: "xnode \<Rightarrow> xpath_expr \<Rightarrow> string list" where
  "texts node xpath_expr =
     (case xpath node xpath_expr of
        RString res \<Rightarrow> map (\<lambda>c. [c]) res
      | RList res \<Rightarrow> map (\<lambda>v. case v of XStr s \<Rightarrow> s | XNode el \<Rightarrow> el_text el) res)"

definition entry_is_for_date :: "xnode \<Rightarrow> string \<Rightarrow> bool" where
  "entry_is_for_date entry iso_date =
     (let upd = text1 entry (StringOfChild ''updated'')
      in upd \<noteq> [] \<and> prefix iso_date upd)"

definition entry_cpv_codes :: "xnode \<Rightarrow> string list" where
  "entry_cpv_codes entry = texts entry (TextsOfDesc ''ItemClassificationCode'')"

record tender_record =
  expediente :: string
  objeto :: string
  organo :: string
  estado :: string
  importe :: string
  cpv :: string
  fecha_updated :: string
  enlace :: string

definition extract_fields :: "xnode \<Rightarrow> tender_record" where
  "extract_fields entry =
     (let title = text1 entry (StringOfChild ''title'');
          updated = text1 entry (StringOfChild ''updated'');
          link = text1 entry (StringOfChildAttr ''link'' ''href'');
          expediente = text1 entry (StringOfDesc ''ContractFolderID'');
          organo = text1 entry (StringOfDesc ''ContractingPartyName'');
          importe = text1 entry (StringOfDesc ''TotalAmount'');
          estado = text1 entry (StringOfDesc ''ContractFolderStatus'');
          cpvs = entry_cpv_codes entry;
          cpv_concat = join '';'' (sorted_set cpvs)
      in \<lparr> expediente = expediente, objeto = title, organo = organo, estado = estado,
           importe = importe, cpv = cpv_concat, fecha_updated = updated, enlace = link \<rparr>)"

subsection \<open>Scanning the archive\<close>

text \<open>
  \<open>zipfile.ZipFile(io.BytesIO(zip_bytes))\<close> is the library's too: it raises (\<open>BadZipFile\<close>
  for bytes that are no archive), or gives the members in the order of \<open>namelist()\<close>,
  each with what \<open>zf.read(name)\<close> does: raise, or return the member's bytes.
\<close>

type_synonym zip_archive = "(string \<times> (py_error + bytes)) list"

type_synonym zip_opener = "bytes \<Rightarrow> py_error + zip_archive"

text \<open>The loop over the entries of one feed; \<open>found\<close> is the list being built.\<close>

fun scan_entries ::
  "string \<Rightarrow> string set \<Rightarrow> tender_record list \<Rightarrow> xnode list \<Rightarrow> tender_record list" where
  "scan_entries iso_date cpv_targets found [] = found"
| "scan_entries iso_date cpv_targets found (e # es) =
     (if \<not> entry_is_for_date e iso_date
      then scan_entries iso_date cpv_targets found es
      else let cpvs = set (entry_cpv_codes e)
           in if cpvs \<inter> cpv_targets = {}
              then scan_entries iso_date cpv_targets found es
              else scan_entries iso_date cpv_targets (found @ [extract_fields e]) es)"

text \<open>The loop over the members; only \<open>KeyError\<close> from \<open>zf.read\<close> is caught.\<close>

fun scan_members ::
  "xml_parser \<Rightarrow> string \<Rightarrow> string set \<Rightarrow> tender_record list \<Rightarrow> zip_archive
     \<Rightarrow> py_error + tender_record list" where
  "scan_members fromstring iso_date cpv_targets found [] = Inr found"
| "scan_members fromstring iso_date cpv_targets found ((name, rd) # ms) =
     (if \<not> suffix ''.atom'' (lower name)
      then scan_members fromstring iso_date cpv_targets found ms
      else case rd of
             Inl exc \<Rightarrow>
               if exc = KeyError
               then scan_members fromstring iso_date cpv_targets found ms
               else Inl exc
           | Inr atom \<Rightarrow>
               (case iter_entries fromstring atom of
                  Inl exc \<Rightarrow> Inl exc
                | Inr es \<Rightarrow>
                    scan_members fromstring iso_date cpv_targets
                      (scan_entries iso_date cpv_targets found es) ms))"

definition process_zip_bytes ::
  "zip_opener \<Rightarrow> xml_parser \<Rightarrow> bytes \<Rightarrow> string \<Rightarrow> string set
     \<Rightarrow> py_error + tender_record list" where
  "process_zip_bytes ZipFile fromstring zip_bytes iso_date cpv_targets =
     (case ZipFile zip_bytes of
        Inl exc \<Rightarrow> Inl exc
      | Inr zf \<Rightarrow> scan_members fromstring iso_date cpv_targets [] zf)"

subsection \<open>One run\<close>

text \<open>A calendar date (\<open>datetime.date\<close>): the year is from 1 to 9999.\<close>

record date =
  year :: nat
  month :: nat
  day :: nat

fun dec_digits :: "nat \<Rightarrow> nat \<Rightarrow> string" where
  "dec_digits 0 n = []"
| "dec_digits (Suc k) n = dec_digits k (n div 10) @ [char_of (48 + n mod 10)]"

text \<open>\<open>d.isoformat()\<close>: \<open>YYYY-MM-DD\<close>, each part padded with zeros.\<close>

definition isoformat :: "date \<Rightarrow> string" where
  "isoformat d =
     dec_digits (Suc (Suc (Suc (Suc 0)))) (year d) @ ''-'' @
     dec_digits (Suc (Suc 0)) (month d) @ ''-'' @
     dec_digits (Suc (Suc 0)) (day d)"

text \<open>
  What a run takes from outside the module: the date parser of \<open>datetime\<close>; today's date
  in the zone of the module, or what looking the zone up raises; the platform's
  \<open>strftime("%Y%m")\<close>; \<open>os.path.abspath\<close>, which gives no path when \<open>os.getcwd\<close> raises
  (an \<open>OSError\<close>: the working directory is gone); the outcome of the \<open>i\<close>-th
  \<open>requests.get\<close> of a URL (with \<open>raise_for_status\<close>); the two libraries above; and
  whether a path can be opened for writing.
\<close>

record env =
  lib_fromisoformat :: "string \<Rightarrow> py_error + date"
  lib_today :: "py_error + date"
  lib_strftime_Ym :: "date \<Rightarrow> string"
  lib_abspath :: "string \<Rightarrow> string option"
  lib_requests_get :: "string \<Rightarrow> nat \<Rightarrow> py_error + bytes"
  lib_ZipFile :: zip_opener
  lib_fromstring :: xml_parser
  lib_can_write :: "string \<Rightarrow> bool"

text \<open>What a run does to the outside, in order. The text of a printed line is not kept;
  \<open>Slept i\<close> is \<open>time.sleep(backoff ** i)\<close>.\<close>

datatype event =
    Printed
  | Requested string
  | Slept nat
  | CsvWritten string "tender_record list"

text \<open>\<open>http_get_bytes\<close>: the loop \<open>for i in range(retries)\<close>, with \<open>k\<close> rounds to go.\<close>

fun http_loop ::
  "(string \<Rightarrow> nat \<Rightarrow> py_error + bytes) \<Rightarrow> string \<Rightarrow> nat \<Rightarrow> nat \<Rightarrow> nat
     \<Rightarrow> event list \<times> (py_error + bytes)" where
  "http_loop get url retries i 0 = ([], Inl RuntimeError)"
| "http_loop get url retries i (Suc k) =
     (case get url i of
        Inr content \<Rightarrow> ([Requested url], Inr content)
      | Inl exc \<Rightarrow>
          (let (log, r) = http_loop get url retries (Suc i) k
           in (Requested url # (if Suc i < retries then [Slept i] else []) @ log, r)))"

definition http_get_bytes ::
  "(string \<Rightarrow> nat \<Rightarrow> py_error + bytes) \<Rightarrow> string \<Rightarrow> nat \<Rightarrow> event list \<times> (py_error + bytes)" where
  "http_get_bytes get url retries = http_loop get url retries 0 retries"

definition month_zip_url :: "env \<Rightarrow> date \<Rightarrow> string" where
  "month_zip_url env target_date =
     ''https://contrataciondelestado.es/sindicacion/sindicacion_643/'' @
     ''licitacionesPerfilesContratanteCompleto3_'' @ lib_strftime_Ym env target_date @ ''.zip''"

definition resolve_target_date :: "env \<Rightarrow> string option \<Rightarrow> py_error + date" where
  "resolve_target_date env iso_date_or_none =
     (case iso_date_or_none of
        None \<Rightarrow> lib_today env
      | Some s \<Rightarrow> if s \<noteq> [] then lib_fromisoformat env s else lib_today env)"

text \<open>The candidate codes, \<open>cpv or DEFAULT_CPV\<close>; the argument \<open>cpv\<close> of the source is
  \<open>cpv_arg\<close> here, \<open>cpv\<close> being a field of the record.\<close>

definition candidates :: "string list option \<Rightarrow> string list" where
  "candidates cpv_arg =
     (case cpv_arg of None \<Rightarrow> DEFAULT_CPV | Some xs \<Rightarrow> if xs = [] then DEFAULT_CPV else xs)"

text \<open>The two set comprehensions that build \<open>cpv_targets\<close>.\<close>

definition cpv_targets_of :: "string list option \<Rightarrow> string set" where
  "cpv_targets_of cpv_arg =
     (let cpv_targets =
            set (map strip (filter (\<lambda>c. c \<noteq> [] \<and> isdigit (strip c)) (candidates cpv_arg)))
      in zfill 8 ` cpv_targets)"

text \<open>\<open>out_path or os.path.abspath(...)\<close>: \<open>abspath\<close> is called only when no path is given.\<close>

definition default_out_path :: "env \<Rightarrow> string \<Rightarrow> py_error + string" where
  "default_out_path env iso_date =
     (case lib_abspath env (''placsp_'' @ iso_date @ ''_cpv.csv'') of
        None \<Rightarrow> Inl OSError
      | Some p \<Rightarrow> Inr p)"

definition resolve_out_path :: "env \<Rightarrow> string \<Rightarrow> string option \<Rightarrow> py_error + string" where
  "resolve_out_path env iso_date out_path =
     (case out_path of
        None \<Rightarrow> default_out_path env iso_date
      | Some p \<Rightarrow> if p \<noteq> [] then Inr p else default_out_path env iso_date)"

text \<open>
  \<open>run_placsp\<close>, with the events of the run beside its result. The data frame is a
  sorted copy of the rows and is left out: the result is the rows as \<open>write_csv\<close> gets
  them, the path and the number of rows.
\<close>

definition run_placsp ::
  "env \<Rightarrow> string option \<Rightarrow> string list option \<Rightarrow> string option \<Rightarrow> bool
     \<Rightarrow> event list \<times> (py_error + tender_record list \<times> string \<times> nat)" where
  "run_placsp env date_iso cpv_arg out_path verbose =
     (case resolve_target_date env date_iso of
        Inl exc \<Rightarrow> ([], Inl exc)
      | Inr target \<Rightarrow>
          (let iso_date = isoformat target;
               cpv_targets = cpv_targets_of cpv_arg
           in if cpv_targets = {} then ([], Inl ValueError_no_cpv)
              else
                (case resolve_out_path env iso_date out_path of
                   Inl exc \<Rightarrow> ([], Inl exc)
                 | Inr path \<Rightarrow>
                     (let url = month_zip_url env target;
                          log1 = (if verbose then [Printed, Printed, Printed] else []);
                          (log2, got) = http_get_bytes (lib_requests_get env) url 3
                      in case got of
                           Inl exc \<Rightarrow> (log1 @ log2, Inl exc)
                         | Inr zip_bytes \<Rightarrow>
                             (let log3 = (if verbose then [Printed] else [])
                              in case process_zip_bytes (lib_ZipFile env) (lib_fromstring env)
                                        zip_bytes iso_date cpv_targets of
                                   Inl exc \<Rightarrow> (log1 @ log2 @ log3, Inl exc)
                                 | Inr rows \<Rightarrow>
                                     if \<not> lib_can_write env path
                                     then (log1 @ log2 @ log3, Inl OSError)
                                     else (log1 @ log2 @ log3 @ [CsvWritten path rows] @
                                             (if verbose then [Printed, Printed] else []),
                                           Inr (rows, path, length rows)))))))"

section \<open>A small world to run the module in\<close>

text \<open>
  One feed with two entries, both updated on 5 March 2024: the first carries the code
  45261215 twice and 09330000 once, the second carries 9330000, without its leading
  zero, and has no title.
\<close>

definition example_entry :: xnode where
  "example_entry =
     Elem ''entry'' []
       [Elem ''title'' [] [Text ''Obra''],
        Elem ''updated'' [] [Text ''2024-03-05T10:00:00+01:00''],
        Elem ''link'' [(''href'', ''https://example.org/1'')] [],
        Elem ''ContractFolderStatus'' []
          [Elem ''ContractFolderID'' [] [Text ''EXP-1''],
           Elem ''ProcurementProject'' []
             [Elem ''ItemClassificationCode'' [] [Text ''45261215''],
              Elem ''ItemClassificationCode'' [] [Text ''45261215''],
              Elem ''ItemClassificationCode'' [] [Text ''09330000'']]]]"

definition short_code_entry :: xnode where
  "short_code_entry =
     Elem ''entry'' []
       [Elem ''updated'' [] [Text ''2024-03-05T11:30:00+01:00''],
        Elem ''ItemClassificationCode'' [] [Text ''9330000'']]"

definition example_feed :: xnode where
  "example_feed = Elem ''feed'' [] [example_entry, short_code_entry]"

text \<open>
  The libraries of the small world know two archives and one feed document. Any other
  bytes are no archive, and any other document has no root element to recover. The
  first archive lists a text file and a feed. The second lists two feeds, and the
  data of the first of them is damaged: reading it raises \<open>BadZipFile\<close> (a bad
  checksum), as \<open>zf.read\<close> does for such a member.
\<close>

definition example_ZipFile :: zip_opener where
  "example_ZipFile b =
     (if b = ''PK:2024-03''
      then Inr [(''README.txt'', Inr ''hello''),
                (''Feed_1.ATOM'', Inr ''<feed>two entries</feed>'')]
      else if b = ''PK:damaged''
      then Inr [(''feed_1.atom'', Inl BadZipFile),
                (''Feed_2.ATOM'', Inr ''<feed>two entries</feed>'')]
      else Inl BadZipFile)"

definition example_fromstring :: xml_parser where
  "example_fromstring b =
     (if b = ''<feed>two entries</feed>'' then Inr (Some example_feed) else Inr None)"

definition example_env :: env where
  "example_env =
     \<lparr> lib_fromisoformat =
         (\<lambda>s. if s = ''2024-03-05'' then Inr \<lparr> year = 2024, month = 3, day = 5 \<rparr>
              else Inl ValueError_isoformat),
       lib_today = Inr \<lparr> year = 2024, month = 3, day = 5 \<rparr>,
       lib_strftime_Ym = (\<lambda>d. dec_digits 4 (year d) @ dec_digits 2 (month d)),
       lib_abspath = (\<lambda>p. Some (''/work/'' @ p)),
       lib_requests_get = (\<lambda>url i. Inr ''PK:2024-03''),
       lib_ZipFile = example_ZipFile,
       lib_fromstring = example_fromstring,
       lib_can_write = (\<lambda>p. True) \<rparr>"

section \<open>Notions used to state the properties\<close>

text \<open>An entry passes both tests of the inner loop of \<open>process_zip_bytes\<close>.\<close>

definition selects :: "string \<Rightarrow> string set \<Rightarrow> xnode \<Rightarrow> bool" where
  "selects d T e = (entry_is_for_date e d \<and> set (entry_cpv_codes e) \<inter> T \<noteq> {})"

text \<open>
  The parsed entries of an archive: the entries of every member with the feed suffix
  that is read and parsed, in the order of the archive and of each document.
\<close>

fun parsed_entries :: "xml_parser \<Rightarrow> zip_archive \<Rightarrow> xnode list" where
  "parsed_entries p [] = []"
| "parsed_entries p ((name, rd) # ms) =
     (if suffix ''.atom'' (lower name)
      then (case rd of
              Inl exc \<Rightarrow> []
            | Inr atom \<Rightarrow> (case iter_entries p atom of Inl exc \<Rightarrow> [] | Inr es \<Rightarrow> es))
      else []) @ parsed_entries p ms"

section \<open>The date test and the loops\<close>

lemma text1_string_result:
  "xpath node q = RString u \<Longrightarrow> text1 node q = take 1 u"
  by (cases u) (simp_all add: text1_def)

lemma entry_is_for_date_iff:
  "entry_is_for_date e d \<longleftrightarrow>
     (\<exists>c cs. xpath e (StringOfChild ''updated'') = RString (c # cs) \<and> (d = [] \<or> d = [c]))"
proof -
  obtain u where u: "xpath e (StringOfChild ''updated'') = RString u" by simp
  show ?thesis
  proof (cases u)
    case Nil
    with u show ?thesis by (simp add: entry_is_for_date_def text1_def)
  next
    case (Cons c cs)
    have "prefix d [c] \<longleftrightarrow> d = [] \<or> d = [c]"
      by (cases d) auto
    with u Cons show ?thesis
      by (simp add: entry_is_for_date_def text1_def del: xpath.simps)
  qed
qed

lemma entry_is_for_date_prefix:
  assumes "entry_is_for_date e d"
  shows "\<exists>u. xpath e (StringOfChild ''updated'') = RString u \<and> u \<noteq> [] \<and> prefix d u"
proof -
  from assms obtain c cs where
    u: "xpath e (StringOfChild ''updated'') = RString (c # cs)" and d: "d = [] \<or> d = [c]"
    unfolding entry_is_for_date_iff by blast
  from d have "prefix d (c # cs)" by auto
  with u show ?thesis by blast
qed

lemma scan_entries_filter:
  "scan_entries d T found es = found @ map extract_fields (filter (selects d T) es)"
  by (induction es arbitrary: found) (simp_all add: selects_def Let_def)

lemma scan_members_filter:
  "scan_members p d T found ms = Inr out \<Longrightarrow>
     out = found @ map extract_fields (filter (selects d T) (parsed_entries p ms))"
proof (induction ms arbitrary: found)
  case Nil
  then show ?case by simp
next
  case (Cons m ms)
  obtain name rd where m: "m = (name, rd)" by (cases m)
  show ?case
  proof (cases "suffix ''.atom'' (lower name)")
    case False
    with Cons m show ?thesis by simp
  next
    case True
    show ?thesis
    proof (cases rd)
      case (Inl exc)
      with Cons m True show ?thesis by (simp split: if_splits)
    next
      case (Inr atom)
      show ?thesis
      proof (cases "iter_entries p atom")
        case (Inl exc)
        with Cons.prems m True Inr show ?thesis by simp
      next
        case es: (Inr es)
        with Cons.prems m True Inr
        have "scan_members p d T (scan_entries d T found es) ms = Inr out" by simp
        from Cons.IH [OF this] m True Inr es show ?thesis
          by (simp add: scan_entries_filter)
      qed
    qed
  qed
qed

text \<open>
  C1. Whenever \<open>process_zip_bytes\<close> returns, its records are, position by position, the
  fields of a subsequence of the parsed entries of the archive, and each of these
  entries has a non-empty \<open>updated\<close> string that starts with the target date and a code
  set that meets the target set: no other record is in the output.
\<close>

theorem output_records_match:
  assumes "process_zip_bytes ZipFile fromstring zip_bytes iso_date cpv_targets = Inr found"
  shows "\<exists>zf es. ZipFile zip_bytes = Inr zf
           \<and> subseq es (parsed_entries fromstring zf)
           \<and> found = map extract_fields es
           \<and> (\<forall>e \<in> set es.
                (\<exists>u. xpath e (StringOfChild ''updated'') = RString u \<and> u \<noteq> [] \<and> prefix iso_date u)
                \<and> set (entry_cpv_codes e) \<inter> cpv_targets \<noteq> {})"
proof -
  from assms obtain zf where zf: "ZipFile zip_bytes = Inr zf"
    and run: "scan_members fromstring iso_date cpv_targets [] zf = Inr found"
    by (auto simp: process_zip_bytes_def split: sum.splits)
  let ?es = "filter (selects iso_date cpv_targets) (parsed_entries fromstring zf)"
  from scan_members_filter [OF run] have "found = map extract_fields ?es" by simp
  moreover have "subseq ?es (parsed_entries fromstring zf)" by simp
  moreover have "\<forall>e \<in> set ?es.
      (\<exists>u. xpath e (StringOfChild ''updated'') = RString u \<and> u \<noteq> [] \<and> prefix iso_date u)
      \<and> set (entry_cpv_codes e) \<inter> cpv_targets \<noteq> {}"
    using entry_is_for_date_prefix by (auto simp: selects_def)
  ultimately show ?thesis using zf by blast
qed


theorem output_records_match_witness:
  "process_zip_bytes example_ZipFile example_fromstring ''PK:2024-03'' ''2'' {''45261215''}
     = Inr [extract_fields example_entry]
   \<and> (\<exists>zf es. example_ZipFile ''PK:2024-03'' = Inr zf
           \<and> subseq es (parsed_entries example_fromstring zf)
           \<and> [extract_fields example_entry] = map extract_fields es
           \<and> (\<forall>e \<in> set es.
                (\<exists>u. xpath e (StringOfChild ''updated'') = RString u \<and> u \<noteq> [] \<and> prefix ''2'' u)
                \<and> set (entry_cpv_codes e) \<inter> {''45261215''} \<noteq> {}))"
proof -
  have run: "process_zip_bytes example_ZipFile example_fromstring ''PK:2024-03'' ''2'' {''45261215''}
               = Inr [extract_fields example_entry]"
    by code_simp
  from output_records_match [OF run] run show ?thesis by simp
qed

text \<open>
  C2. The entry of the small world is updated at \<open>2024-03-05T10:00:00+01:00\<close>, which
  starts with \<open>2024-03-05\<close>; \<open>text1\<close> hands \<open>entry_is_for_date\<close> the first character of
  that string only, and the test for the date \<open>2024-03-05\<close> fails.
\<close>

theorem date_test_sees_first_character_only:
  "xpath example_entry (StringOfChild ''updated'') = RString ''2024-03-05T10:00:00+01:00''
   \<and> prefix ''2024-03-05'' ''2024-03-05T10:00:00+01:00''
   \<and> text1 example_entry (StringOfChild ''updated'') = ''2''
   \<and> \<not> entry_is_for_date example_entry ''2024-03-05''"
  by (simp add: example_entry_def entry_is_for_date_def text1_def)

section \<open>The record fields\<close>

lemma entry_cpv_codes_texts:
  "entry_cpv_codes e =
     concat (map text_children (filter (is_named ''ItemClassificationCode'') (descendants e)))"
  by (simp add: entry_cpv_codes_def texts_def comp_def del: text_children.simps)

lemma cpv_field: "cpv (extract_fields e) = join '';'' (sorted_set (entry_cpv_codes e))"
  by (simp add: extract_fields_def Let_def)

text \<open>
  C3. The \<open>cpv\<close> field of every entry is the \<open>;\<close>-joined list, increasing and without
  repetition, of the text values of all \<open>ItemClassificationCode\<close> elements beneath the
  entry; an entry with the codes 45261215, 45261215, 09330000 gets
  \<open>09330000;45261215\<close>.
\<close>

theorem cpv_field_sorted_distinct:
  "(\<exists>L. sorted L \<and> distinct L
        \<and> set L = set (concat (map text_children
                     (filter (is_named ''ItemClassificationCode'') (descendants e))))
        \<and> cpv (extract_fields e) = join '';'' L)
   \<and> (entry_cpv_codes e = [''45261215'', ''45261215'', ''09330000'']
        \<longrightarrow> cpv (extract_fields e) = ''09330000;45261215'')"
proof
  let ?L = "sorted_set (entry_cpv_codes e)"
  have "sorted ?L" "distinct ?L" by (simp_all add: sorted_set_def)
  moreover have "set ?L = set (concat (map text_children
                     (filter (is_named ''ItemClassificationCode'') (descendants e))))"
    by (simp only: sorted_set_def set_sort set_remdups entry_cpv_codes_texts)
  ultimately show "\<exists>L. sorted L \<and> distinct L
        \<and> set L = set (concat (map text_children
                     (filter (is_named ''ItemClassificationCode'') (descendants e))))
        \<and> cpv (extract_fields e) = join '';'' L"
    using cpv_field by blast
next
  have "sorted_set [''45261215'', ''45261215'', ''09330000''] = [''09330000'', ''45261215'']"
    by code_simp
  then show "entry_cpv_codes e = [''45261215'', ''45261215'', ''09330000'']
        \<longrightarrow> cpv (extract_fields e) = ''09330000;45261215''"
    by (simp add: cpv_field)
qed

theorem cpv_field_sorted_distinct_witness:
  "entry_cpv_codes example_entry = [''45261215'', ''45261215'', ''09330000'']
   \<and> cpv (extract_fields example_entry) = ''09330000;45261215''"
proof -
  have codes: "entry_cpv_codes example_entry = [''45261215'', ''45261215'', ''09330000'']"
    by (simp add: example_entry_def entry_cpv_codes_def texts_def)
  with cpv_field_sorted_distinct [of example_entry] show ?thesis by blast
qed

text \<open>
  C10. The codes of an entry are the text nodes as they stand in the document, and an
  entry none of whose codes is, as a string, one of the targets is passed over by the
  loop: the code 9330000 does not match the target 09330000.
\<close>

theorem textually_different_codes_do_not_match:
  "entry_cpv_codes e =
     concat (map text_children (filter (is_named ''ItemClassificationCode'') (descendants e)))
   \<and> ((\<forall>c \<in> set (entry_cpv_codes e). c \<notin> cpv_targets)
        \<longrightarrow> scan_entries iso_date cpv_targets found (e # es)
              = scan_entries iso_date cpv_targets found es)"
proof
  show "entry_cpv_codes e =
     concat (map text_children (filter (is_named ''ItemClassificationCode'') (descendants e)))"
    by (rule entry_cpv_codes_texts)
next
  show "(\<forall>c \<in> set (entry_cpv_codes e). c \<notin> cpv_targets)
        \<longrightarrow> scan_entries iso_date cpv_targets found (e # es)
              = scan_entries iso_date cpv_targets found es"
  proof
    assume "\<forall>c \<in> set (entry_cpv_codes e). c \<notin> cpv_targets"
    then have "set (entry_cpv_codes e) \<inter> cpv_targets = {}" by blast
    then show "scan_entries iso_date cpv_targets found (e # es)
              = scan_entries iso_date cpv_targets found es"
      by (simp add: Let_def)
  qed
qed

theorem textually_different_codes_do_not_match_witness:
  "entry_is_for_date short_code_entry ''2''
   \<and> entry_cpv_codes short_code_entry = [''9330000'']
   \<and> ''9330000'' \<noteq> ''09330000''
   \<and> scan_entries ''2'' {''09330000''} [] [short_code_entry] = []"
proof -
  have codes: "entry_cpv_codes short_code_entry = [''9330000'']"
    by (simp add: short_code_entry_def entry_cpv_codes_def texts_def)
  have day: "entry_is_for_date short_code_entry ''2''"
    by (simp add: short_code_entry_def entry_is_for_date_def text1_def)
  have differ: "\<forall>c \<in> set (entry_cpv_codes short_code_entry). c \<notin> {''09330000''}"
    by (simp add: codes)
  from textually_different_codes_do_not_match
         [of short_code_entry "{''09330000''}" "''2''" "[]" "[]"] differ
  have "scan_entries ''2'' {''09330000''} [] [short_code_entry] = scan_entries ''2'' {''09330000''} [] []"
    by blast
  with codes day differ show ?thesis by simp
qed

section \<open>The target codes\<close>

lemma digit_not_space: "is_digit c \<Longrightarrow> \<not> is_space c"
  by (auto simp: is_digit_def is_space_def)

lemma digit_not_sign: "is_digit c \<Longrightarrow> c \<noteq> CHR ''+'' \<and> c \<noteq> CHR ''-''"
  by (auto simp: is_digit_def)

lemma zero_is_digit: "is_digit CHR ''0''"
  by (simp add: is_digit_def)

lemma strip_isdigit:
  assumes "isdigit s"
  shows "strip s = s"
proof -
  from assms obtain c cs where s: "s = c # cs" and c: "is_digit c"
    by (cases s) (auto simp: isdigit_def)
  from assms have "is_digit (last s)"
    by (auto simp: isdigit_def list_all_iff)
  then have l: "\<not> is_space (last s)" by (rule digit_not_space)
  from c have "dropWhile is_space s = s"
    by (simp add: s digit_not_space)
  moreover have "dropWhile is_space (rev s) = rev s"
    using l s by (cases "rev s") (auto simp: last_rev hd_rev [symmetric] dest: arg_cong [where f = hd])
  ultimately show ?thesis by (simp add: strip_def)
qed

lemma zfill_isdigit:
  assumes "isdigit s"
  shows "zfill w s = replicate (w - length s) CHR ''0'' @ s"
proof -
  from assms obtain c cs where s: "s = c # cs" and c: "is_digit c"
    by (cases s) (auto simp: isdigit_def)
  from digit_not_sign [OF c] show ?thesis
    by (simp add: zfill_def s)
qed

lemma isdigit_zfill:
  assumes "isdigit s"
  shows "isdigit (zfill w s)" and "w \<le> length (zfill w s)"
    and "length s \<le> w \<Longrightarrow> length (zfill w s) = w"
  using assms by (auto simp: zfill_isdigit isdigit_def zero_is_digit list_all_iff)

lemma zfill_long: "w \<le> length s \<Longrightarrow> zfill w s = s"
  by (simp add: zfill_def)

lemma cpv_targets_of_mem:
  "c \<in> cpv_targets_of cpv_arg \<longleftrightarrow>
     (\<exists>x \<in> set (candidates cpv_arg). isdigit (strip x) \<and> c = zfill 8 (strip x))"
proof -
  have ne: "x \<noteq> []" if "isdigit (strip x)" for x
    using that by (auto simp: isdigit_def strip_def)
  show ?thesis
    using ne by (auto simp: cpv_targets_of_def)
qed

text \<open>
  C7, as the code has it. Every code of the target set is a candidate, stripped and
  passed through \<open>zfill(8)\<close>: it consists of digits and has at least eight characters,
  exactly eight when the stripped candidate has at most eight. A longer candidate is
  neither cut nor dropped.
\<close>

theorem normalized_codes_padded:
  assumes "c \<in> cpv_targets_of cpv_arg"
  shows "isdigit c \<and> 8 \<le> length c
         \<and> (\<exists>x \<in> set (candidates cpv_arg).
               isdigit (strip x) \<and> c = zfill 8 (strip x)
               \<and> (length (strip x) \<le> 8 \<longrightarrow> length c = 8))"
proof -
  from assms obtain x where x: "x \<in> set (candidates cpv_arg)" "isdigit (strip x)"
    and c: "c = zfill 8 (strip x)"
    unfolding cpv_targets_of_mem by blast
  from isdigit_zfill [OF x(2), of 8] c x show ?thesis by blast
qed

theorem normalized_codes_padded_witness:
  "''00000123'' \<in> cpv_targets_of (Some [''abc'', ''123''])
   \<and> isdigit ''00000123'' \<and> length ''00000123'' = 8"
proof -
  have m: "''00000123'' \<in> cpv_targets_of (Some [''abc'', ''123''])"
    by code_simp
  from normalized_codes_padded [OF m] show ?thesis using m by simp
qed

text \<open>C7, as stated, fails on a candidate of nine digits: it is kept as it is.\<close>

theorem nine_digit_code_kept:
  "''123456789'' \<in> cpv_targets_of (Some [''123456789''])
   \<and> length ''123456789'' = 9"
  by code_simp

text \<open>
  C9. When the target set of a run is \<open>S\<close> and is not empty, so that the run goes on,
  the target set of any list of the elements of \<open>S\<close> is \<open>S\<close> again.
\<close>

theorem normalization_idempotent:
  assumes "cpv_targets_of cpv_arg = S" and "S \<noteq> {}" and "set xs = S"
  shows "cpv_targets_of (Some xs) = S"
proof -
  from assms have ne: "xs \<noteq> []" by auto
  have keep: "isdigit c \<and> strip c = c \<and> zfill 8 c = c \<and> c \<noteq> []" if "c \<in> set xs" for c
  proof -
    from that assms have "c \<in> cpv_targets_of cpv_arg" by simp
    then obtain x where "isdigit (strip x)" "c = zfill 8 (strip x)"
      unfolding cpv_targets_of_mem by blast
    with isdigit_zfill [of "strip x" 8] have d: "isdigit c" and l: "8 \<le> length c" by simp_all
    from d l show ?thesis
      by (auto simp: strip_isdigit zfill_long isdigit_def)
  qed
  have "cpv_targets_of (Some xs) = (\<lambda>c. zfill 8 (strip c)) ` {c \<in> set xs. c \<noteq> [] \<and> isdigit (strip c)}"
    using ne by (auto simp: cpv_targets_of_def candidates_def)
  also have "\<dots> = set xs"
    using keep by force
  finally show ?thesis using assms by simp
qed

theorem normalization_idempotent_witness:
  "cpv_targets_of (Some [''abc'', ''123'']) = {''00000123''}
   \<and> cpv_targets_of (Some [''00000123'']) = {''00000123''}"
proof -
  have a: "cpv_targets_of (Some [''abc'', ''123'']) = {''00000123''}"
    by code_simp
  from normalization_idempotent [OF a, of "[''00000123'']"] a show ?thesis by simp
qed

section \<open>Fields that are absent\<close>

lemma text1_empty_string: "xpath e q = RString [] \<Longrightarrow> text1 e q = []"
  by (simp add: text1_def)

text \<open>
  C8. \<open>extract_fields\<close> is a total function: no step of \<open>text1\<close>, \<open>texts\<close> or
  \<open>extract_fields\<close> can raise. Each of the eight fields is the empty string whenever its
  query selects no node; an entry without a \<open>title\<close> child has \<open>objeto\<close> empty.
\<close>

theorem absent_fields_are_empty:
  "(filter (is_named ''title'') (kids e) = [] \<longrightarrow> objeto (extract_fields e) = [])
   \<and> (filter (is_named ''updated'') (kids e) = [] \<longrightarrow> fecha_updated (extract_fields e) = [])
   \<and> (List.map_filter (\<lambda>c. map_of (attribs c) ''href'') (filter (is_named ''link'') (kids e)) = []
        \<longrightarrow> enlace (extract_fields e) = [])
   \<and> (filter (is_named ''ContractFolderID'') (descendants e) = []
        \<longrightarrow> expediente (extract_fields e) = [])
   \<and> (filter (is_named ''ContractingPartyName'') (descendants e) = []
        \<longrightarrow> organo (extract_fields e) = [])
   \<and> (filter (is_named ''TotalAmount'') (descendants e) = []
        \<longrightarrow> importe (extract_fields e) = [])
   \<and> (filter (is_named ''ContractFolderStatus'') (descendants e) = []
        \<longrightarrow> estado (extract_fields e) = [])
   \<and> (concat (map text_children (filter (is_named ''ItemClassificationCode'') (descendants e))) = []
        \<longrightarrow> cpv (extract_fields e) = [])"
proof -
  have child: "filter (is_named n) (kids e) = [] \<Longrightarrow> text1 e (StringOfChild n) = []" for n
    by (simp add: text1_empty_string)
  have attr: "List.map_filter (\<lambda>c. map_of (attribs c) a) (filter (is_named n) (kids e)) = []
        \<Longrightarrow> text1 e (StringOfChildAttr n a) = []" for n a
    by (simp add: text1_empty_string)
  have desc: "filter (is_named n) (descendants e) = [] \<Longrightarrow> text1 e (StringOfDesc n) = []" for n
    by (simp add: text1_empty_string)
  have codes: "concat (map text_children (filter (is_named ''ItemClassificationCode'') (descendants e))) = []
        \<Longrightarrow> cpv (extract_fields e) = []"
    by (simp only: cpv_field entry_cpv_codes_texts sorted_set_def) simp
  show ?thesis
    using child attr desc codes by (simp add: extract_fields_def Let_def)
qed

theorem absent_fields_are_empty_witness:
  "extract_fields (Elem ''entry'' [] []) =
     \<lparr> expediente = [], objeto = [], organo = [], estado = [], importe = [], cpv = [],
       fecha_updated = [], enlace = [] \<rparr>
   \<and> filter (is_named ''title'') (kids short_code_entry) = []
   \<and> objeto (extract_fields short_code_entry) = []"
proof -
  have t: "filter (is_named ''title'') (kids short_code_entry) = []"
    by (simp add: short_code_entry_def)
  from absent_fields_are_empty [of short_code_entry] t
  have o: "objeto (extract_fields short_code_entry) = []" by blast
  have "extract_fields (Elem ''entry'' [] []) =
     \<lparr> expediente = [], objeto = [], organo = [], estado = [], importe = [], cpv = [],
       fecha_updated = [], enlace = [] \<rparr>"
    using absent_fields_are_empty [of "Elem ''entry'' [] []"]
    by (simp add: List.map_filter_simps)
  with t o show ?thesis by blast
qed

section \<open>Documents without a root\<close>

text \<open>
  C6. When the recovering parser finds no root element in the bytes it is given,
  \<open>fromstring\<close> returns \<open>None\<close> and \<open>iter_entries\<close> raises \<open>AttributeError\<close>: it does not
  return an empty list of entries.
\<close>

theorem rootless_document_raises:
  "fromstring atom_bytes = Inr None \<Longrightarrow> iter_entries fromstring atom_bytes = Inl AttributeError"
  by (simp add: iter_entries_def)

theorem rootless_document_raises_witness:
  "example_fromstring ''not xml'' = Inr None
   \<and> iter_entries example_fromstring ''not xml'' = Inl AttributeError"
proof -
  have n: "example_fromstring ''not xml'' = Inr None"
    by (simp add: example_fromstring_def)
  from rootless_document_raises [of example_fromstring "''not xml''"] n show ?thesis by simp
qed

section \<open>A member that cannot be read\<close>

lemma example_archive:
  "example_ZipFile ''PK:2024-03'' =
     Inr [(''README.txt'', Inr ''hello''),
          (''Feed_1.ATOM'', Inr ''<feed>two entries</feed>'')]"
  by (simp add: example_ZipFile_def)

lemma example_suffixes:
  "\<not> suffix ''.atom'' (lower ''README.txt'')"
  "suffix ''.atom'' (lower ''Feed_1.ATOM'')"
  "suffix ''.atom'' (lower ''feed_1.atom'')"
  "suffix ''.atom'' (lower ''Feed_2.ATOM'')"
  by code_simp+

lemma example_feed_entries:
  "iter_entries example_fromstring ''<feed>two entries</feed>'' = Inr [example_entry, short_code_entry]"
  by (simp add: iter_entries_def example_fromstring_def example_feed_def example_entry_def
        short_code_entry_def)

lemma example_scan:
  "scan_entries ''2'' {''45261215''} [] [example_entry, short_code_entry]
     = [extract_fields example_entry]"
  by code_simp

text \<open>
  C5. The second archive of the small world opens, and the data of its first feed is
  damaged. Reading that member raises \<open>BadZipFile\<close>; the handler around \<open>zf.read\<close> names
  \<open>KeyError\<close> only, so the member is not passed over: \<open>process_zip_bytes\<close> raises
  \<open>BadZipFile\<close>, which is neither of the two failures that may leave the pipeline, and
  the record that the second feed holds is lost.
\<close>

theorem damaged_member_aborts_run:
  "example_ZipFile ''PK:damaged'' =
     Inr [(''feed_1.atom'', Inl BadZipFile), (''Feed_2.ATOM'', Inr ''<feed>two entries</feed>'')]
   \<and> process_zip_bytes example_ZipFile example_fromstring ''PK:damaged'' ''2'' {''45261215''}
       = Inl BadZipFile
   \<and> BadZipFile \<noteq> RuntimeError \<and> BadZipFile \<noteq> ValueError_no_cpv
   \<and> scan_members example_fromstring ''2'' {''45261215''} []
       [(''Feed_2.ATOM'', Inr ''<feed>two entries</feed>'')]
       = Inr [extract_fields example_entry]"
  by (simp add: process_zip_bytes_def example_ZipFile_def example_suffixes example_feed_entries
        example_scan del: scan_entries.simps)

section \<open>No valid code\<close>

lemma http_loop_first: "\<exists>rest. fst (http_loop get url retries i (Suc k)) = Requested url # rest"
  by (simp split: sum.splits prod.splits)

lemma http_get_bytes_first:
  "\<exists>rest. fst (http_get_bytes get url 3) = Requested url # rest"
  using http_loop_first [of get url 3 0 2]
  by (simp add: http_get_bytes_def numeral_3_eq_3)

lemma resolve_out_path_error:
  "resolve_out_path env iso_date out_path = Inl exc \<Longrightarrow> exc = OSError"
  by (auto simp: resolve_out_path_def default_out_path_def split: option.splits if_splits)

lemma run_placsp_downloads:
  assumes "resolve_target_date env date_iso = Inr target"
    and "cpv_targets_of cpv_arg \<noteq> {}"
    and "resolve_out_path env (isoformat target) out_path = Inr path"
  shows "Requested (month_zip_url env target)
           \<in> set (fst (run_placsp env date_iso cpv_arg out_path verbose))"
proof -
  obtain log2 got where g:
    "http_get_bytes (lib_requests_get env) (month_zip_url env target) 3 = (log2, got)"
    by (cases "http_get_bytes (lib_requests_get env) (month_zip_url env target) 3")
  from http_get_bytes_first [of "lib_requests_get env" "month_zip_url env target"] g
  have "Requested (month_zip_url env target) \<in> set log2"
    by auto
  then show ?thesis
    using assms g by (simp add: run_placsp_def Let_def split: sum.splits)
qed

lemma run_placsp_no_cpv:
  assumes "resolve_target_date env date_iso = Inr target"
  shows "run_placsp env date_iso cpv_arg out_path verbose = ([], Inl ValueError_no_cpv)
         \<longleftrightarrow> cpv_targets_of cpv_arg = {}"
proof (cases "cpv_targets_of cpv_arg = {}")
  case True
  with assms show ?thesis by (simp add: run_placsp_def)
next
  case False
  have "run_placsp env date_iso cpv_arg out_path verbose \<noteq> ([], Inl ValueError_no_cpv)"
  proof (cases "resolve_out_path env (isoformat target) out_path")
    case (Inl exc)
    with resolve_out_path_error [OF Inl] assms False show ?thesis
      by (simp add: run_placsp_def)
  next
    case (Inr path)
    from run_placsp_downloads [OF assms False Inr, of verbose]
    have "fst (run_placsp env date_iso cpv_arg out_path verbose) \<noteq> []" by auto
    then show ?thesis by auto
  qed
  with False show ?thesis by simp
qed

lemma cpv_targets_of_list:
  assumes "xs \<noteq> []"
  shows "cpv_targets_of (Some xs) = (\<lambda>c. zfill 8 (strip c)) ` {c \<in> set xs. isdigit (strip c)}"
proof -
  have ne: "x \<noteq> []" if "isdigit (strip x)" for x
    using that by (auto simp: isdigit_def strip_def)
  show ?thesis
    using assms ne by (auto simp: cpv_targets_of_def candidates_def)
qed

lemma abc_123_targets: "cpv_targets_of (Some [''abc'', ''123'']) = {''00000123''}"
  by code_simp

lemma default_targets:
  "cpv_targets_of None = {''09330000'', ''45261215'', ''45315300''}"
  "cpv_targets_of (Some []) = {''09330000'', ''45261215'', ''45315300''}"
  by code_simp+

text \<open>
  C4, as the code has it. Take a date that resolves. For a list of candidates that is
  not empty, the run ends in the \<open>ValueError\<close> for the codes, with nothing printed,
  requested or written, exactly when no candidate is numeric after stripping, that is
  when the normalized set is empty. An empty list and an omitted one are replaced by
  the three built-in codes, which are their own normalization, and the run does not end
  in that error. The list \<open>["abc", "123"]\<close> gives the target set \<open>{"00000123"}\<close>; the run
  does not end in that error either, and once the output path is there (given, or
  resolved by \<open>abspath\<close>) it requests the archive.
\<close>

theorem no_valid_code_raises_before_io:
  assumes "resolve_target_date env date_iso = Inr target"
  shows "(xs \<noteq> [] \<longrightarrow>
           (run_placsp env date_iso (Some xs) out_path verbose = ([], Inl ValueError_no_cpv)
            \<longleftrightarrow> (\<lambda>c. zfill 8 (strip c)) ` {c \<in> set xs. isdigit (strip c)} = {}))
         \<and> cpv_targets_of None = {''09330000'', ''45261215'', ''45315300''}
         \<and> cpv_targets_of (Some []) = {''09330000'', ''45261215'', ''45315300''}
         \<and> run_placsp env date_iso None out_path verbose \<noteq> ([], Inl ValueError_no_cpv)
         \<and> run_placsp env date_iso (Some []) out_path verbose \<noteq> ([], Inl ValueError_no_cpv)
         \<and> cpv_targets_of (Some [''abc'', ''123'']) = {''00000123''}
         \<and> run_placsp env date_iso (Some [''abc'', ''123'']) out_path verbose
             \<noteq> ([], Inl ValueError_no_cpv)
         \<and> (resolve_out_path env (isoformat target) out_path = Inr path \<longrightarrow>
              Requested (month_zip_url env target)
                \<in> set (fst (run_placsp env date_iso (Some [''abc'', ''123'']) out_path verbose)))"
proof (intro conjI impI)
  assume "xs \<noteq> []"
  then show "run_placsp env date_iso (Some xs) out_path verbose = ([], Inl ValueError_no_cpv)
            \<longleftrightarrow> (\<lambda>c. zfill 8 (strip c)) ` {c \<in> set xs. isdigit (strip c)} = {}"
    using run_placsp_no_cpv [OF assms, of "Some xs" out_path verbose] cpv_targets_of_list [of xs]
    by simp
next
  show "cpv_targets_of None = {''09330000'', ''45261215'', ''45315300''}"
    by (rule default_targets)
next
  show "cpv_targets_of (Some []) = {''09330000'', ''45261215'', ''45315300''}"
    by (rule default_targets)
next
  show "run_placsp env date_iso None out_path verbose \<noteq> ([], Inl ValueError_no_cpv)"
    using run_placsp_no_cpv [OF assms, of None out_path verbose]
    by (simp add: default_targets)
next
  show "run_placsp env date_iso (Some []) out_path verbose \<noteq> ([], Inl ValueError_no_cpv)"
    using run_placsp_no_cpv [OF assms, of "Some []" out_path verbose]
    by (simp add: default_targets)
next
  show "cpv_targets_of (Some [''abc'', ''123'']) = {''00000123''}"
    by (rule abc_123_targets)
next
  show "run_placsp env date_iso (Some [''abc'', ''123'']) out_path verbose
             \<noteq> ([], Inl ValueError_no_cpv)"
    using run_placsp_no_cpv [OF assms, of "Some [''abc'', ''123'']" out_path verbose]
    by (simp add: abc_123_targets)
next
  assume "resolve_out_path env (isoformat target) out_path = Inr path"
  then show "Requested (month_zip_url env target)
             \<in> set (fst (run_placsp env date_iso (Some [''abc'', ''123'']) out_path verbose))"
    by (intro run_placsp_downloads [OF assms]) (simp_all add: abc_123_targets)
qed

lemma example_date:
  "resolve_target_date example_env (Some ''2024-03-05'') = Inr \<lparr> year = 2024, month = 3, day = 5 \<rparr>"
  by (simp add: resolve_target_date_def example_env_def)

lemma example_isoformat: "isoformat \<lparr> year = 2024, month = 3, day = 5 \<rparr> = ''2024-03-05''"
  by code_simp

lemma example_out_path:
  "resolve_out_path example_env ''2024-03-05'' None = Inr ''/work/placsp_2024-03-05_cpv.csv''"
  by (simp add: resolve_out_path_def default_out_path_def example_env_def)

theorem no_valid_code_raises_before_io_witness:
  "resolve_target_date example_env (Some ''2024-03-05'') = Inr \<lparr> year = 2024, month = 3, day = 5 \<rparr>
   \<and> resolve_out_path example_env (isoformat \<lparr> year = 2024, month = 3, day = 5 \<rparr>) None
       = Inr ''/work/placsp_2024-03-05_cpv.csv''
   \<and> run_placsp example_env (Some ''2024-03-05'') (Some [''abc'', ''x-1'']) None True
       = ([], Inl ValueError_no_cpv)
   \<and> run_placsp example_env (Some ''2024-03-05'') (Some [''abc'', ''123'']) None True
       \<noteq> ([], Inl ValueError_no_cpv)
   \<and> Requested (month_zip_url example_env \<lparr> year = 2024, month = 3, day = 5 \<rparr>)
       \<in> set (fst (run_placsp example_env (Some ''2024-03-05'') (Some [''abc'', ''123'']) None True))"
proof -
  have a: "\<not> isdigit (strip ''abc'')" and b: "\<not> isdigit (strip ''x-1'')"
    by code_simp+
  have none: "(\<lambda>c. zfill 8 (strip c)) ` {c \<in> set [''abc'', ''x-1'']. isdigit (strip c)} = {}"
    using a b by auto
  have path: "resolve_out_path example_env (isoformat \<lparr> year = 2024, month = 3, day = 5 \<rparr>) None
       = Inr ''/work/placsp_2024-03-05_cpv.csv''"
    by (simp only: example_isoformat example_out_path)
  note t = no_valid_code_raises_before_io
             [OF example_date, of "[''abc'', ''x-1'']" None True "''/work/placsp_2024-03-05_cpv.csv''"]
  from t none
  have "run_placsp example_env (Some ''2024-03-05'') (Some [''abc'', ''x-1'']) None True
       = ([], Inl ValueError_no_cpv)"
    by simp
  moreover from t
  have "run_placsp example_env (Some ''2024-03-05'') (Some [''abc'', ''123'']) None True
       \<noteq> ([], Inl ValueError_no_cpv)"
    by blast
  moreover from t path
  have "Requested (month_zip_url example_env \<lparr> year = 2024, month = 3, day = 5 \<rparr>)
       \<in> set (fst (run_placsp example_env (Some ''2024-03-05'') (Some [''abc'', ''123'']) None True))"
    by blast
  ultimately show ?thesis using example_date path by blast
qed

lemma example_download:
  "http_get_bytes (lib_requests_get example_env) url 3 = ([Requested url], Inr ''PK:2024-03'')"
  by (simp add: http_get_bytes_def numeral_3_eq_3 example_env_def)

lemma example_entries_other_day:
  "\<not> entry_is_for_date example_entry ''2024-03-05''"
  "\<not> entry_is_for_date short_code_entry ''2024-03-05''"
  by (simp_all add: example_entry_def short_code_entry_def entry_is_for_date_def text1_def)

lemma example_no_rows:
  "process_zip_bytes example_ZipFile example_fromstring ''PK:2024-03'' ''2024-03-05'' T = Inr []"
  by (simp add: process_zip_bytes_def example_archive example_suffixes example_feed_entries
        example_entries_other_day)

text \<open>C4, as stated, fails on the empty list: no candidate survives, yet the run takes
  the built-in codes and returns.\<close>

theorem empty_list_runs_on_defaults:
  "filter (isdigit \<circ> strip) [] = []
   \<and> cpv_targets_of (Some []) = set DEFAULT_CPV
   \<and> snd (run_placsp example_env (Some ''2024-03-05'') (Some []) None False)
       = Inr ([], ''/work/placsp_2024-03-05_cpv.csv'', 0)"
proof -
  have d: "cpv_targets_of (Some []) = set DEFAULT_CPV"
    by (simp add: default_targets DEFAULT_CPV_def)
  have libs: "lib_ZipFile example_env = example_ZipFile" "lib_fromstring example_env = example_fromstring"
      "lib_can_write example_env p" for p
    by (simp_all add: example_env_def)
  have "snd (run_placsp example_env (Some ''2024-03-05'') (Some []) None False)
       = Inr ([], ''/work/placsp_2024-03-05_cpv.csv'', 0)"
    by (simp add: run_placsp_def Let_def example_date default_targets example_isoformat
          example_out_path example_download libs example_no_rows)
  with d show ?thesis by simp
qed

end
